theory Spec2Isabelle
  imports Main "HOL-Library.AList"
begin

section \<open>The desktop component of gnome15 (g15desktop.py)\<close>

text \<open>
  A shallow embedding of \<^verbatim>\<open>G15Screen\<close> and \<^verbatim>\<open>G15DesktopComponent\<close>.
  The component's attributes become a record that every method takes and returns.
  The methods whose Python name starts with an underscore keep the name without it
  (\<^verbatim>\<open>_add_screen\<close> is \<open>add_screen\<close>).

  What is outside the file is made explicit:
  \<^item> the calls over the session bus are answered by a \<open>remote\<close>, a record of
    functions that return either a fault or the reply;
  \<^item> the hooks a concrete component overrides (\<^verbatim>\<open>rebuild_desktop_component\<close>,
    \<^verbatim>\<open>clear_attention\<close>, \<^verbatim>\<open>attention\<close>) are recorded, in call order, in
    the field \<open>trace\<close>;
  \<^item> \<^verbatim>\<open>g15screen.PRI_LOW\<close> is a parameter \<open>pri_low\<close>.
  The reentrant lock, the logger and the signal subscriptions carry no cached state and
  are left out.
\<close>

subsection \<open>Faults and dictionaries\<close>

datatype fault = DBusException | KeyError

text \<open>
  A Python dictionary is an association list: the list order is the iteration order.
  Storing under a present key keeps the key's place, storing under a new key appends.
\<close>

type_synonym ('k, 'v) dict = "('k \<times> 'v) list"

definition dict_in :: "'k \<Rightarrow> ('k, 'v) dict \<Rightarrow> bool" where
  "dict_in k d = (map_of d k \<noteq> None)"

definition dict_get :: "('k, 'v) dict \<Rightarrow> 'k \<Rightarrow> fault + 'v" where
  "dict_get d k = (case map_of d k of None \<Rightarrow> Inl KeyError | Some v \<Rightarrow> Inr v)"

definition dict_set :: "'k \<Rightarrow> 'v \<Rightarrow> ('k, 'v) dict \<Rightarrow> ('k, 'v) dict" where
  "dict_set k v d = AList.update k v d"

definition dict_del :: "'k \<Rightarrow> ('k, 'v) dict \<Rightarrow> fault + ('k, 'v) dict" where
  "dict_del k d = (if dict_in k d then Inr (AList.delete k d) else Inl KeyError)"

definition dict_keys :: "('k, 'v) dict \<Rightarrow> 'k list" where
  "dict_keys d = map fst d"

subsection \<open>\<^verbatim>\<open>str\<close> of an integer\<close>

fun str_nat :: "nat \<Rightarrow> string" where
  "str_nat n =
     (if n < 10 then [''0123456789'' ! n]
      else str_nat (n div 10) @ [''0123456789'' ! (n mod 10)])"

declare str_nat.simps [simp del]

definition str :: "int \<Rightarrow> string" where
  "str i = (if i < 0 then CHR ''-'' # str_nat (nat (- i)) else str_nat (nat i))"

subsection \<open>The data model\<close>

record G15Screen =
  path :: string
  device_model_fullname :: string
  device_uid :: string
  items :: "(string, string) dict"
  message :: "string option"

definition G15Screen_init :: "string \<Rightarrow> string \<Rightarrow> string \<Rightarrow> G15Screen" where
  "G15Screen_init p fullname uid =
     \<lparr>path = p, device_model_fullname = fullname, device_uid = uid,
      items = [], message = None\<rparr>"

datatype hook_call = Rebuild | ClearAttention | Attention "string option"

datatype service_proxy = ServiceProxy

record component =
  screens :: "(string, G15Screen) dict"
  service :: "service_proxy option"
  attention_messages :: "(string, string option) dict"
  connected :: bool
  trace :: "hook_call list"

text \<open>
  The replies of the bus. \<open>GetService\<close> is
  \<^verbatim>\<open>session_bus.get_object('org.gnome15.Gnome15', '/org/gnome15/Service')\<close>; the
  calls on a screen take the screen's path, the calls on a page take the sequence number
  that names the page object (\<^verbatim>\<open>'/org/gnome15/Page%d'\<close>).
\<close>

record remote =
  GetService :: "fault + service_proxy"
  GetScreens :: "fault + string list"
  GetDeviceInformation :: "string \<Rightarrow> fault + (string \<times> string \<times> string \<times> string)"
  IsAttentionRequested :: "string \<Rightarrow> fault + bool"
  GetMessage :: "string \<Rightarrow> fault + string"
  GetPageSequenceNumbers :: "string \<Rightarrow> int \<Rightarrow> fault + int list"
  GetPriority :: "int \<Rightarrow> fault + int"
  GetSequenceNumber :: "int \<Rightarrow> fault + int"
  GetTitle :: "int \<Rightarrow> fault + string"

text \<open>
  A method returns the fault it raised, if any, and the component as it left it.
\<close>

type_synonym outcome = "fault option \<times> component"

definition init_component :: component where
  "init_component =
     \<lparr>screens = [], service = None, attention_messages = [], connected = False,
      trace = []\<rparr>"

subsection \<open>The hooks\<close>

definition rebuild_desktop_component :: "component \<Rightarrow> component" where
  "rebuild_desktop_component s = s\<lparr>trace := trace s @ [Rebuild]\<rparr>"

definition clear_attention :: "component \<Rightarrow> component" where
  "clear_attention s = s\<lparr>trace := trace s @ [ClearAttention]\<rparr>"

definition attention :: "string option \<Rightarrow> component \<Rightarrow> component" where
  "attention m s = s\<lparr>trace := trace s @ [Attention m]\<rparr>"

subsection \<open>Public functions\<close>

definition check_attention :: "component \<Rightarrow> outcome" where
  "check_attention s =
     (if length (attention_messages s) = 0 then (None, clear_attention s)
      else (case dict_keys (attention_messages s) of
              [] \<Rightarrow> (None, s)
            | i # _ \<Rightarrow>
                (case dict_get (attention_messages s) i of
                   Inl e \<Rightarrow> (Some e, s)
                 | Inr m \<Rightarrow> (None, attention m s))))"

subsection \<open>Private functions\<close>

definition reset_attention :: "component \<Rightarrow> component" where
  "reset_attention s = rebuild_desktop_component (s\<lparr>attention_messages := []\<rparr>)"

definition attention_cleared :: "component \<Rightarrow> string \<Rightarrow> component" where
  "attention_cleared s screen_path =
     (if dict_in screen_path (attention_messages s)
      then rebuild_desktop_component
             (s\<lparr>attention_messages := AList.delete screen_path (attention_messages s)\<rparr>)
      else s)"

definition attention_requested :: "component \<Rightarrow> string \<Rightarrow> string option \<Rightarrow> component" where
  "attention_requested s screen_path m =
     (if \<not> dict_in screen_path (attention_messages s)
      then rebuild_desktop_component
             (s\<lparr>attention_messages := dict_set screen_path m (attention_messages s)\<rparr>)
      else s)"

definition remove_screen :: "component \<Rightarrow> string \<Rightarrow> outcome" where
  "remove_screen s screen_path =
     (if dict_in screen_path (screens s)
      then (case dict_del screen_path (screens s) of
              Inr d \<Rightarrow> (None, rebuild_desktop_component (s\<lparr>screens := d\<rparr>))
            | Inl DBusException \<Rightarrow> (None, rebuild_desktop_component s)
            | Inl e \<Rightarrow> (Some e, s))
      else (None, rebuild_desktop_component s))"

definition add_screen :: "remote \<Rightarrow> component \<Rightarrow> string \<Rightarrow> outcome" where
  "add_screen r s screen_path =
     (case GetDeviceInformation r screen_path of
        Inl e \<Rightarrow> (Some e, s)
      | Inr (uid, model_name, usb_id, fullname) \<Rightarrow>
          (let screen = G15Screen_init screen_path fullname uid;
               s1 = s\<lparr>screens := dict_set screen_path screen (screens s)\<rparr>
           in case IsAttentionRequested r screen_path of
                Inl e \<Rightarrow> (Some e, s1)
              | Inr requested \<Rightarrow>
                  (if requested
                   then (case GetMessage r screen_path of
                           Inl e \<Rightarrow> (Some e, s1)
                         | Inr m \<Rightarrow>
                             (None, s1\<lparr>screens :=
                                dict_set screen_path (screen\<lparr>message := Some m\<rparr>)
                                  (screens s1)\<rparr>))
                   else (None, s1))))"

definition add_page :: "remote \<Rightarrow> component \<Rightarrow> string \<Rightarrow> int \<Rightarrow> outcome" where
  "add_page r s screen_path page =
     (case GetSequenceNumber r page of
        Inl e \<Rightarrow> (Some e, s)
      | Inr n \<Rightarrow>
          (let seq_no = str n
           in case dict_get (screens s) screen_path of
                Inl e \<Rightarrow> (Some e, s)
              | Inr scr \<Rightarrow>
                  (if \<not> dict_in seq_no (items scr)
                   then (case GetTitle r page of
                           Inl e \<Rightarrow> (Some e, s)
                         | Inr t \<Rightarrow>
                             (None, rebuild_desktop_component
                                (s\<lparr>screens :=
                                   dict_set screen_path
                                     (scr\<lparr>items := dict_set seq_no t (items scr)\<rparr>)
                                     (screens s)\<rparr>)))
                   else (None, s))))"

subsection \<open>DBus event callbacks\<close>

definition page_created :: "int \<Rightarrow> remote \<Rightarrow> component \<Rightarrow> string \<Rightarrow> int \<Rightarrow> string \<Rightarrow> outcome" where
  "page_created pri_low r s screen_path page_sequence_number page_title =
     (case GetPriority r page_sequence_number of
        Inl e \<Rightarrow> (Some e, s)
      | Inr p \<Rightarrow>
          (if p \<ge> pri_low then add_page r s screen_path page_sequence_number
           else (None, s)))"

definition page_title_changed :: "component \<Rightarrow> string \<Rightarrow> int \<Rightarrow> string \<Rightarrow> outcome" where
  "page_title_changed s screen_path page_sequence_number title =
     (case dict_get (screens s) screen_path of
        Inl e \<Rightarrow> (Some e, s)
      | Inr scr \<Rightarrow>
          (None, rebuild_desktop_component
             (s\<lparr>screens :=
                dict_set screen_path
                  (scr\<lparr>items := dict_set (str page_sequence_number) title (items scr)\<rparr>)
                  (screens s)\<rparr>)))"

definition page_deleting :: "component \<Rightarrow> string \<Rightarrow> int \<Rightarrow> outcome" where
  "page_deleting s screen_path page_sequence_number =
     (let page_item_key = str page_sequence_number
      in case dict_get (screens s) screen_path of
           Inl e \<Rightarrow> (Some e, s)
         | Inr scr \<Rightarrow>
             (if dict_in page_item_key (items scr)
              then (case dict_del page_item_key (items scr) of
                      Inl e \<Rightarrow> (Some e, s)
                    | Inr d \<Rightarrow>
                        (None, rebuild_desktop_component
                           (s\<lparr>screens :=
                              dict_set screen_path (scr\<lparr>items := d\<rparr>) (screens s)\<rparr>)))
              else (None, s)))"

subsection \<open>Connecting and disconnecting\<close>

fun load_pages :: "int \<Rightarrow> remote \<Rightarrow> component \<Rightarrow> string \<Rightarrow> int list \<Rightarrow> outcome" where
  "load_pages pri_low r s screen_path [] = (None, s)"
| "load_pages pri_low r s screen_path (n # ns) =
     (case GetPriority r n of
        Inl e \<Rightarrow> (Some e, s)
      | Inr p \<Rightarrow>
          (if p \<ge> pri_low
           then (case add_page r s screen_path n of
                   (Some e, s') \<Rightarrow> (Some e, s')
                 | (None, s') \<Rightarrow> load_pages pri_low r s' screen_path ns)
           else load_pages pri_low r s screen_path ns))"

fun load_screens :: "int \<Rightarrow> remote \<Rightarrow> component \<Rightarrow> string list \<Rightarrow> outcome" where
  "load_screens pri_low r s [] = (None, s)"
| "load_screens pri_low r s (screen_path # ps) =
     (case add_screen r s screen_path of
        (Some e, s') \<Rightarrow> (Some e, s')
      | (None, s') \<Rightarrow>
          (case GetPageSequenceNumbers r screen_path pri_low of
             Inl e \<Rightarrow> (Some e, s')
           | Inr seqs \<Rightarrow>
               (case load_pages pri_low r s' screen_path seqs of
                  (Some e, s'') \<Rightarrow> (Some e, s'')
                | (None, s'') \<Rightarrow> load_screens pri_low r s'' ps)))"

definition connect :: "int \<Rightarrow> remote \<Rightarrow> component \<Rightarrow> outcome" where
  "connect pri_low r s =
     (let s1 = reset_attention s
      in case GetService r of
           Inl e \<Rightarrow> (Some e, s1)
         | Inr h \<Rightarrow>
             (let s2 = s1\<lparr>service := Some h, connected := True\<rparr>
              in case GetScreens r of
                   Inl e \<Rightarrow> (Some e, s2)
                 | Inr ps \<Rightarrow>
                     (case load_screens pri_low r s2 ps of
                        (Some e, s3) \<Rightarrow> (Some e, s3)
                      | (None, s3) \<Rightarrow> (None, rebuild_desktop_component s3))))"

fun remove_screens :: "component \<Rightarrow> string list \<Rightarrow> outcome" where
  "remove_screens s [] = (None, s)"
| "remove_screens s (screen_path # ps) =
     (case remove_screen s screen_path of
        (Some e, s') \<Rightarrow> (Some e, s')
      | (None, s') \<Rightarrow> remove_screens s' ps)"

definition disconnect :: "component \<Rightarrow> outcome" where
  "disconnect s =
     (case (if service s \<noteq> None \<and> connected s
            then remove_screens s (dict_keys (screens s))
            else (None, s)) of
        (Some e, s1) \<Rightarrow> (Some e, s1)
      | (None, s1) \<Rightarrow>
          (let s2 = reset_attention s1;
               s3 = attention_requested s2 ''service''
                      (Some ''g15-desktop-service is not running.'')
           in (None, rebuild_desktop_component (s3\<lparr>service := None, connected := False\<rparr>))))"

definition start :: "int \<Rightarrow> remote \<Rightarrow> component \<Rightarrow> outcome" where
  "start pri_low r s =
     (case connect pri_low r s of
        (Some DBusException, s1) \<Rightarrow> disconnect s1
      | (Some e, s1) \<Rightarrow> (Some e, s1)
      | (None, s1) \<Rightarrow> (None, s1))"

definition name_owner_changed ::
  "int \<Rightarrow> remote \<Rightarrow> component \<Rightarrow> string \<Rightarrow> string \<Rightarrow> string \<Rightarrow> outcome" where
  "name_owner_changed pri_low r s name old_owner new_owner =
     (if name = ''org.gnome15.Gnome15''
      then (if old_owner = ''''
            then (if service s = None then connect pri_low r s else (None, s))
            else (if service s \<noteq> None then disconnect (s\<lparr>connected := False\<rparr>)
                  else (None, s)))
      else (None, s))"

subsection \<open>Concrete inputs\<close>

text \<open>
  A service with one screen \<^verbatim>\<open>/s1\<close> showing one page, number 5, titled
  "Weather"; the same service with attention requested on its screen; a service that
  cannot be reached; and the component as it is once connected to the first.
\<close>

definition demo_remote :: remote where
  "demo_remote =
     \<lparr>GetService = Inr ServiceProxy,
      GetScreens = Inr [''/s1''],
      GetDeviceInformation = (\<lambda>p. Inr (''U1'', ''Model1'', ''usb1'', ''Model One'')),
      IsAttentionRequested = (\<lambda>p. Inr False),
      GetMessage = (\<lambda>p. Inr []),
      GetPageSequenceNumbers = (\<lambda>p m. Inr [5]),
      GetPriority = (\<lambda>n. Inr 20),
      GetSequenceNumber = (\<lambda>n. Inr n),
      GetTitle = (\<lambda>n. Inr ''Weather'')\<rparr>"

definition alert_remote :: remote where
  "alert_remote =
     demo_remote\<lparr>IsAttentionRequested := (\<lambda>p. Inr True),
                 GetMessage := (\<lambda>p. Inr ''Low battery'')\<rparr>"

definition weather_screen :: G15Screen where
  "weather_screen =
     (G15Screen_init ''/s1'' ''Model One'' ''U1'')\<lparr>items := [(''5'', ''Weather'')]\<rparr>"

definition connected_state :: component where
  "connected_state =
     \<lparr>screens = [(''/s1'', weather_screen)],
      service = Some ServiceProxy, attention_messages = [], connected = True,
      trace = []\<rparr>"

definition alert_state :: component where
  "alert_state =
     connected_state\<lparr>attention_messages :=
       [(''/s1'', Some ''Low battery''), (''/s2'', None)]\<rparr>"

text \<open>
  The first service again, with one call on a page faulting: the priority, the sequence
  number, or the title.
\<close>

definition no_priority_remote :: remote where
  "no_priority_remote = demo_remote\<lparr>GetPriority := (\<lambda>n. Inl DBusException)\<rparr>"

definition no_seqno_remote :: remote where
  "no_seqno_remote = demo_remote\<lparr>GetSequenceNumber := (\<lambda>n. Inl DBusException)\<rparr>"

definition no_title_remote :: remote where
  "no_title_remote = demo_remote\<lparr>GetTitle := (\<lambda>n. Inl DBusException)\<rparr>"

section \<open>Properties\<close>

subsection \<open>Dictionaries\<close>

lemma map_of_dict_set: "map_of (dict_set k v d) = (map_of d)(k \<mapsto> v)"
  by (simp add: dict_set_def update_conv')

subsection \<open>Disconnecting\<close>

text \<open>
  Removing a screen never raises; a disconnect always ends without a fault, with no
  service handle and with the single attention entry of the stopped service. The cached
  screens are cleared only under the guard of \<^verbatim>\<open>_disconnect\<close>, a service
  handle and \<open>connected\<close>; otherwise they are kept.
\<close>

lemma remove_screen_ok: "fst (remove_screen s p) = None"
  by (simp add: remove_screen_def dict_del_def rebuild_desktop_component_def)

lemma remove_screen_screens:
  "screens (snd (remove_screen s p)) = AList.delete p (screens s)"
  by (simp add: remove_screen_def dict_del_def dict_in_def rebuild_desktop_component_def
      map_of_eq_None_iff)

lemma remove_screens_ok:
  "fst (remove_screens s ps) = None
   \<and> screens (snd (remove_screens s ps)) = filter (\<lambda>kv. fst kv \<notin> set ps) (screens s)"
proof (induction ps arbitrary: s)
  case Nil
  then show ?case by simp
next
  case (Cons p ps)
  obtain s' where r: "remove_screen s p = (None, s')"
    using remove_screen_ok [of s p] by (cases "remove_screen s p") simp
  then have "screens s' = AList.delete p (screens s)"
    using remove_screen_screens [of s p] by simp
  then show ?case
    using r Cons.IH [of s'] by (auto simp add: AList.delete_eq intro: filter_cong)
qed

lemma disconnect_removal:
  "\<exists>s1. (if service s \<noteq> None \<and> connected s
          then remove_screens s (dict_keys (screens s)) else (None, s)) = (None, s1)
      \<and> screens s1 = (if service s \<noteq> None \<and> connected s then [] else screens s)"
proof (cases "service s \<noteq> None \<and> connected s")
  case True
  have "fst (remove_screens s (dict_keys (screens s))) = None"
    and "screens (snd (remove_screens s (dict_keys (screens s)))) = []"
    using remove_screens_ok [of s "dict_keys (screens s)"]
    by (simp_all add: dict_keys_def)
  then show ?thesis
    using True by (cases "remove_screens s (dict_keys (screens s))") simp
next
  case False
  then have "(if service s \<noteq> None \<and> connected s
          then remove_screens s (dict_keys (screens s)) else (None, s)) = (None, s)"
    and "(if service s \<noteq> None \<and> connected s then [] else screens s) = screens s"
    by (simp_all only: if_False)
  then show ?thesis by (simp only: prod.inject) blast
qed

lemma disconnect_attention:
  "fst (disconnect s) = None
   \<and> attention_messages (snd (disconnect s))
       = [(''service'', Some ''g15-desktop-service is not running.'')]
   \<and> service (snd (disconnect s)) = None \<and> \<not> connected (snd (disconnect s))"
proof -
  obtain s1 where r: "(if service s \<noteq> None \<and> connected s
            then remove_screens s (dict_keys (screens s)) else (None, s)) = (None, s1)"
    using disconnect_removal [of s] by blast
  show ?thesis
    unfolding disconnect_def r
    by (simp add: reset_attention_def attention_requested_def rebuild_desktop_component_def
        dict_in_def dict_set_def)
qed

lemma disconnect_screens:
  "screens (snd (disconnect s))
     = (if service s \<noteq> None \<and> connected s then [] else screens s)"
proof -
  obtain s1 where r: "(if service s \<noteq> None \<and> connected s
            then remove_screens s (dict_keys (screens s)) else (None, s)) = (None, s1)"
    and s1: "screens s1 = (if service s \<noteq> None \<and> connected s then [] else screens s)"
    using disconnect_removal [of s] by blast
  have "screens (snd (disconnect s)) = screens s1"
    unfolding disconnect_def r
    by (simp add: Let_def reset_attention_def attention_requested_def
        rebuild_desktop_component_def dict_in_def dict_set_def)
  then show ?thesis
    by (simp only: s1)
qed

lemma owner_lost_screens:
  "service s \<noteq> None \<Longrightarrow> old_owner \<noteq> [] \<Longrightarrow>
   screens (snd (name_owner_changed pri_low r s ''org.gnome15.Gnome15'' old_owner new_owner))
     = screens s"
  by (simp add: name_owner_changed_def disconnect_screens)

text \<open>
  Loading the screens and pages keeps the service handle and \<open>connected\<close>, so a
  connect that fails after the handle was obtained is followed, in \<^verbatim>\<open>start\<close>,
  by a disconnect that clears the cache; when the handle itself cannot be obtained the
  disconnect runs on the component as it was.
\<close>

lemma add_screen_handle:
  "add_screen r s p = (e, s') \<Longrightarrow> service s' = service s \<and> connected s' = connected s"
  by (auto simp add: add_screen_def Let_def split: sum.splits prod.splits if_splits)

lemma add_page_handle:
  "add_page r s p n = (e, s') \<Longrightarrow> service s' = service s \<and> connected s' = connected s"
  by (auto simp add: add_page_def Let_def rebuild_desktop_component_def
      split: sum.splits if_splits)

lemma load_pages_handle:
  "load_pages pri_low r s p ns = (e, s') \<Longrightarrow>
   service s' = service s \<and> connected s' = connected s"
proof (induction ns arbitrary: s)
  case Nil
  then show ?case by simp
next
  case (Cons n ns)
  show ?case
  proof (cases "GetPriority r n")
    case (Inl f)
    then show ?thesis using Cons.prems by simp
  next
    case (Inr pr)
    show ?thesis
    proof (cases "pri_low \<le> pr")
      case False
      then show ?thesis using Cons.prems Inr Cons.IH [of s] by simp
    next
      case True
      obtain f s1 where a: "add_page r s p n = (f, s1)"
        by (cases "add_page r s p n")
      note h = add_page_handle [OF a]
      show ?thesis
      proof (cases f)
        case None
        then show ?thesis using Cons.prems Inr True a h Cons.IH [of s1] by simp
      next
        case (Some x)
        then show ?thesis using Cons.prems Inr True a h by simp
      qed
    qed
  qed
qed

lemma load_screens_handle:
  "load_screens pri_low r s ps = (e, s') \<Longrightarrow>
   service s' = service s \<and> connected s' = connected s"
proof (induction ps arbitrary: s)
  case Nil
  then show ?case by simp
next
  case (Cons p ps)
  obtain f s1 where a: "add_screen r s p = (f, s1)"
    by (cases "add_screen r s p")
  note h = add_screen_handle [OF a]
  show ?case
  proof (cases f)
    case (Some x)
    then show ?thesis using Cons.prems a h by simp
  next
    case None
    show ?thesis
    proof (cases "GetPageSequenceNumbers r p pri_low")
      case (Inl x)
      then show ?thesis using Cons.prems a h None by simp
    next
      case (Inr seqs)
      obtain g s2 where b: "load_pages pri_low r s1 p seqs = (g, s2)"
        by (cases "load_pages pri_low r s1 p seqs")
      note k = load_pages_handle [OF b]
      show ?thesis
      proof (cases g)
        case (Some x)
        then show ?thesis using Cons.prems a h None Inr b k by simp
      next
        case gn: None
        then show ?thesis using Cons.prems a h None Inr b k Cons.IH [of s2] by simp
      qed
    qed
  qed
qed

lemma connect_handle:
  assumes "GetService r = Inr h"
  shows "service (snd (connect pri_low r s)) = Some h \<and> connected (snd (connect pri_low r s))"
proof (cases "GetScreens r")
  case (Inl e)
  then show ?thesis
    using assms by (simp add: connect_def Let_def)
next
  case (Inr ps)
  define s2 where "s2 = (reset_attention s)\<lparr>service := Some h, connected := True\<rparr>"
  obtain e s3 where l: "load_screens pri_low r s2 ps = (e, s3)"
    by (cases "load_screens pri_low r s2 ps")
  have "service s3 = Some h \<and> connected s3"
    using load_screens_handle [OF l] by (simp add: s2_def)
  then show ?thesis
    using assms Inr l
    by (cases e) (simp_all add: connect_def Let_def s2_def [symmetric]
        rebuild_desktop_component_def)
qed

lemma start_failure_clears:
  "GetService r = Inr h \<Longrightarrow> fst (connect pri_low r s) = Some DBusException \<Longrightarrow>
   screens (snd (start pri_low r s)) = []"
  using connect_handle [of r h pri_low s] disconnect_screens [of "snd (connect pri_low r s)"]
  by (cases "connect pri_low r s") (simp add: start_def)

lemma start_unreachable_keeps:
  "GetService r = Inl DBusException \<Longrightarrow>
   screens (snd (start pri_low r s))
     = (if service s \<noteq> None \<and> connected s then [] else screens s)"
  using disconnect_screens [of "reset_attention s"]
  by (simp add: start_def connect_def Let_def reset_attention_def rebuild_desktop_component_def)

text \<open>
  C1. The claim: after any disconnect (explicit, connect failure, or ownership of the bus
  name lost while connected) the screens map is empty and the attention map holds exactly
  the entry "service" with the text of the stopped service. Here the code is run on a
  connected component that caches the screen \<^verbatim>\<open>/s1\<close>, at the signal that the
  owner \<^verbatim>\<open>:1.5\<close> of \<^verbatim>\<open>org.gnome15.Gnome15\<close> is gone:
  \<^verbatim>\<open>_name_owner_changed\<close> sets \<open>connected\<close> to False before it calls
  \<^verbatim>\<open>_disconnect\<close>, whose removal loop is guarded by \<open>connected\<close>, so the
  attention map is as claimed but the screen \<^verbatim>\<open>/s1\<close> stays in the cache.
\<close>

theorem owner_lost_keeps_stale_screen:
  "name_owner_changed 20 demo_remote connected_state ''org.gnome15.Gnome15'' '':1.5'' []
     = (None, connected_state
          \<lparr>service := None,
           attention_messages := [(''service'', Some ''g15-desktop-service is not running.'')],
           connected := False, trace := [Rebuild, Rebuild, Rebuild]\<rparr>)
   \<and> screens (snd (name_owner_changed 20 demo_remote connected_state
                    ''org.gnome15.Gnome15'' '':1.5'' []))
       = [(''/s1'', weather_screen)]"
  by (simp add: name_owner_changed_def disconnect_def connected_state_def reset_attention_def
      attention_requested_def rebuild_desktop_component_def dict_in_def dict_set_def)

subsection \<open>Screens added and removed\<close>

text \<open>
  C2. The claim: every handler that mutates cached state ends by invoking the rebuild
  hook, and in particular the screen-added handler triggers a rebuild before returning.
  Here the code is run at the signal that the screen \<^verbatim>\<open>/s2\<close> was added: the
  screen is inserted into the cache and the handler returns without any hook call.
\<close>

theorem screen_added_without_rebuild:
  "add_screen demo_remote connected_state ''/s2''
     = (None, connected_state\<lparr>screens :=
          [(''/s1'', weather_screen), (''/s2'', G15Screen_init ''/s2'' ''Model One'' ''U1'')]\<rparr>)
   \<and> trace (snd (add_screen demo_remote connected_state ''/s2'')) = trace connected_state
   \<and> Rebuild \<notin> set (trace (snd (add_screen demo_remote connected_state ''/s2'')))"
  by (simp add: add_screen_def demo_remote_def connected_state_def dict_set_def)

text \<open>
  C3. The screen-added handler never changes the attention map: whatever the bus
  replies, also when a call faults, the component differs from the one before at most in
  its screens. When the remote screen has attention requested and its message is fetched,
  the message is stored in the message field of the new screen.
\<close>

theorem add_screen_attention_frame:
  "attention_messages (snd (add_screen r s p)) = attention_messages s
   \<and> snd (add_screen r s p) = s\<lparr>screens := screens (snd (add_screen r s p))\<rparr>
   \<and> (\<forall>uid mn usb fn m.
         GetDeviceInformation r p = Inr (uid, mn, usb, fn) \<longrightarrow>
         IsAttentionRequested r p = Inr True \<longrightarrow>
         GetMessage r p = Inr m \<longrightarrow>
           fst (add_screen r s p) = None
           \<and> map_of (screens (snd (add_screen r s p)))
               = (map_of (screens s))(p \<mapsto>
                   \<lparr>path = p, device_model_fullname = fn, device_uid = uid,
                    items = [], message = Some m\<rparr>))"
  by (simp add: add_screen_def Let_def map_of_dict_set G15Screen_init_def
      split: sum.split prod.split)

theorem add_screen_attention_frame_witness:
  "GetDeviceInformation alert_remote ''/s2'' = Inr (''U1'', ''Model1'', ''usb1'', ''Model One'')
   \<and> IsAttentionRequested alert_remote ''/s2'' = Inr True
   \<and> GetMessage alert_remote ''/s2'' = Inr ''Low battery''
   \<and> attention_messages (snd (add_screen alert_remote connected_state ''/s2'')) = []
   \<and> map_of (screens (snd (add_screen alert_remote connected_state ''/s2''))) ''/s2''
       = Some \<lparr>path = ''/s2'', device_model_fullname = ''Model One'', device_uid = ''U1'',
               items = [], message = Some ''Low battery''\<rparr>"
proof -
  have a: "GetDeviceInformation alert_remote ''/s2'' = Inr (''U1'', ''Model1'', ''usb1'', ''Model One'')"
    and b: "IsAttentionRequested alert_remote ''/s2'' = Inr True"
    and c: "GetMessage alert_remote ''/s2'' = Inr ''Low battery''"
    by (simp_all add: alert_remote_def demo_remote_def)
  have d: "attention_messages connected_state = []"
    by (simp add: connected_state_def)
  from add_screen_attention_frame [of alert_remote connected_state "''/s2''"] a b c
  have "attention_messages (snd (add_screen alert_remote connected_state ''/s2'')) = attention_messages connected_state"
    and "map_of (screens (snd (add_screen alert_remote connected_state ''/s2'')))
               = (map_of (screens connected_state))(''/s2'' \<mapsto>
                   \<lparr>path = ''/s2'', device_model_fullname = ''Model One'', device_uid = ''U1'',
                    items = [], message = Some ''Low battery''\<rparr>)"
    by blast+
  then show ?thesis using a b c d by simp
qed




text \<open>
  C7. The screen-removed handler never raises, deletes the entry of the given path
  when there is one, leaves the cache as it is when there is none, and invokes the rebuild
  hook exactly once in either case.
\<close>

theorem remove_screen_always_rebuilds:
  "remove_screen s p
     = (None, s\<lparr>screens := screens (snd (remove_screen s p)), trace := trace s @ [Rebuild]\<rparr>)
   \<and> map_of (screens (snd (remove_screen s p))) = (map_of (screens s))(p := None)
   \<and> (map_of (screens s) p = None \<longrightarrow> screens (snd (remove_screen s p)) = screens s)"
  by (auto simp add: remove_screen_def dict_in_def dict_del_def rebuild_desktop_component_def
      delete_conv' map_of_eq_None_iff)

theorem remove_screen_always_rebuilds_witness:
  "map_of (screens connected_state) ''/s9'' = None
   \<and> remove_screen connected_state ''/s9'' = (None, connected_state\<lparr>trace := [Rebuild]\<rparr>)"
proof -
  have a: "map_of (screens connected_state) ''/s9'' = None"
    by (simp add: connected_state_def)
  have t: "trace connected_state = []"
    by (simp add: connected_state_def)
  from remove_screen_always_rebuilds [of connected_state "''/s9''"] a
  have e: "screens (snd (remove_screen connected_state ''/s9'')) = screens connected_state"
    and r: "remove_screen connected_state ''/s9''
     = (None, connected_state\<lparr>screens := screens (snd (remove_screen connected_state ''/s9'')),
          trace := trace connected_state @ [Rebuild]\<rparr>)"
    by blast+
  show ?thesis using a r unfolding e t by simp
qed

subsection \<open>Pages\<close>

lemma add_page_trace:
  "trace (snd (add_page r s sp n))
     = (if screens (snd (add_page r s sp n)) = screens s then trace s else trace s @ [Rebuild])"
proof -
  have ne: "dict_set sp (scr\<lparr>items := dict_set k t (items scr)\<rparr>) (screens s) \<noteq> screens s"
    if "map_of (screens s) sp = Some scr" "map_of (items scr) k = None" for scr k t
  proof
    assume "dict_set sp (scr\<lparr>items := dict_set k t (items scr)\<rparr>) (screens s) = screens s"
    then have "map_of (dict_set sp (scr\<lparr>items := dict_set k t (items scr)\<rparr>) (screens s)) sp
        = map_of (screens s) sp"
      by simp
    then have "scr\<lparr>items := dict_set k t (items scr)\<rparr> = scr"
      using that by (simp add: map_of_dict_set)
    then have "items (scr\<lparr>items := dict_set k t (items scr)\<rparr>) = items scr"
      by simp
    then have "map_of (dict_set k t (items scr)) k = map_of (items scr) k"
      by simp
    then show False
      using that by (simp add: map_of_dict_set)
  qed
  show ?thesis
    by (auto simp add: add_page_def Let_def dict_get_def dict_in_def rebuild_desktop_component_def ne
        split: sum.split option.split)
qed

lemma dict_set_items_changes:
  assumes "map_of d sp = Some scr" and "map_of (items scr) k = None"
  shows "dict_set sp (scr\<lparr>items := dict_set k t (items scr)\<rparr>) d \<noteq> d"
proof
  assume "dict_set sp (scr\<lparr>items := dict_set k t (items scr)\<rparr>) d = d"
  then have "map_of (dict_set sp (scr\<lparr>items := dict_set k t (items scr)\<rparr>) d) sp = map_of d sp"
    by simp
  then have "scr\<lparr>items := dict_set k t (items scr)\<rparr> = scr"
    using assms by (simp add: map_of_dict_set)
  then have "items (scr\<lparr>items := dict_set k t (items scr)\<rparr>) = items scr"
    by simp
  then have "map_of (dict_set k t (items scr)) k = map_of (items scr) k"
    by simp
  then show False
    using assms by (simp add: map_of_dict_set)
qed

lemma page_created_changes_iff:
  "(screens (snd (page_created pri_low r s sp n title)) \<noteq> screens s)
     = (\<exists>p q scr t. GetPriority r n = Inr p \<and> pri_low \<le> p
          \<and> GetSequenceNumber r n = Inr q \<and> map_of (screens s) sp = Some scr
          \<and> map_of (items scr) (str q) = None \<and> GetTitle r n = Inr t)"
proof (cases "GetPriority r n")
  case (Inl e)
  then show ?thesis by (simp add: page_created_def)
next
  case p: (Inr p)
  show ?thesis
  proof (cases "pri_low \<le> p")
    case False
    then show ?thesis using p by (simp add: page_created_def)
  next
    case le: True
    show ?thesis
    proof (cases "GetSequenceNumber r n")
      case (Inl e)
      then show ?thesis using p le by (simp add: page_created_def add_page_def)
    next
      case q: (Inr q)
      show ?thesis
      proof (cases "map_of (screens s) sp")
        case None
        then show ?thesis
          using p le q by (simp add: page_created_def add_page_def dict_get_def)
      next
        case scr: (Some scr)
        show ?thesis
        proof (cases "map_of (items scr) (str q)")
          case (Some v)
          then show ?thesis
            using p le q scr
            by (simp add: page_created_def add_page_def dict_get_def dict_in_def)
        next
          case absent: None
          show ?thesis
          proof (cases "GetTitle r n")
            case (Inl e)
            then show ?thesis
              using p le q scr absent
              by (simp add: page_created_def add_page_def dict_get_def dict_in_def)
          next
            case (Inr t)
            then show ?thesis
              using p le q scr absent dict_set_items_changes [OF scr absent, of t]
              by (simp add: page_created_def add_page_def dict_get_def dict_in_def
                  rebuild_desktop_component_def)
          qed
        qed
      qed
    qed
  qed
qed

text \<open>
  C4 as stated fails: "the page is inserted if and only if its priority is at least the
  low threshold and its sequence number is not already present" does not hold for every
  page-created event. Page 7 has priority 20, the threshold, and no screen shows it; yet
  for the screen path \<^verbatim>\<open>/s9\<close>, which is not in the cache, the handler raises
  KeyError, and for the cached screen \<^verbatim>\<open>/s1\<close>, when fetching the title faults,
  it raises that fault. In both runs nothing is inserted.
\<close>

theorem page_created_uncached_counterexample:
  "GetPriority demo_remote 7 = Inr 20 \<and> (20::int) \<le> 20
   \<and> GetSequenceNumber demo_remote 7 = Inr 7
   \<and> map_of (items weather_screen) (str 7) = None
   \<and> screens connected_state = [(''/s1'', weather_screen)]
   \<and> page_created 20 demo_remote connected_state ''/s9'' 7 ''News''
       = (Some KeyError, connected_state)
   \<and> GetPriority no_title_remote 7 = Inr 20
   \<and> GetSequenceNumber no_title_remote 7 = Inr 7
   \<and> page_created 20 no_title_remote connected_state ''/s1'' 7 ''News''
       = (Some DBusException, connected_state)"
  by (simp add: page_created_def add_page_def dict_get_def dict_in_def demo_remote_def
      no_title_remote_def connected_state_def weather_screen_def str_def str_nat.simps)

text \<open>
  C4, amended. For every page-created event the handler fetches the page's priority, and
  it inserts the page into the screen's items map if and only if all of these hold: the
  priority is fetched and is at least the low threshold, the page's sequence number is
  fetched, the screen is in the cache, the sequence number is not already a key of the
  screen's items, and the page's title is fetched. The page is then stored under its
  sequence number with the fetched title and nothing else in the cache changes. In every
  other case the component is left as it was: the handler returns normally when the
  priority is below the threshold or the key is present, and raises the fault of the bus
  call, or KeyError for a screen that is not cached, otherwise. The rebuild hook is
  invoked exactly when the insertion happened.
\<close>

theorem page_created_inserts_iff:
  "(screens (snd (page_created pri_low r s sp n title)) \<noteq> screens s)
     = (\<exists>p q scr t. GetPriority r n = Inr p \<and> pri_low \<le> p
          \<and> GetSequenceNumber r n = Inr q \<and> map_of (screens s) sp = Some scr
          \<and> map_of (items scr) (str q) = None \<and> GetTitle r n = Inr t)
   \<and> trace (snd (page_created pri_low r s sp n title))
     = (if screens (snd (page_created pri_low r s sp n title)) = screens s
        then trace s else trace s @ [Rebuild])
   \<and> (\<forall>e. GetPriority r n = Inl e \<longrightarrow>
         page_created pri_low r s sp n title = (Some e, s))
   \<and> (\<forall>p. GetPriority r n = Inr p \<longrightarrow> p < pri_low \<longrightarrow>
         page_created pri_low r s sp n title = (None, s))
   \<and> (\<forall>p e. GetPriority r n = Inr p \<longrightarrow> pri_low \<le> p \<longrightarrow>
         GetSequenceNumber r n = Inl e \<longrightarrow>
         page_created pri_low r s sp n title = (Some e, s))
   \<and> (\<forall>p q. GetPriority r n = Inr p \<longrightarrow> pri_low \<le> p \<longrightarrow>
         GetSequenceNumber r n = Inr q \<longrightarrow> map_of (screens s) sp = None \<longrightarrow>
         page_created pri_low r s sp n title = (Some KeyError, s))
   \<and> (\<forall>p q scr. GetPriority r n = Inr p \<longrightarrow> pri_low \<le> p \<longrightarrow>
         GetSequenceNumber r n = Inr q \<longrightarrow> map_of (screens s) sp = Some scr \<longrightarrow>
         map_of (items scr) (str q) \<noteq> None \<longrightarrow>
         page_created pri_low r s sp n title = (None, s))
   \<and> (\<forall>p q scr e. GetPriority r n = Inr p \<longrightarrow> pri_low \<le> p \<longrightarrow>
         GetSequenceNumber r n = Inr q \<longrightarrow> map_of (screens s) sp = Some scr \<longrightarrow>
         map_of (items scr) (str q) = None \<longrightarrow> GetTitle r n = Inl e \<longrightarrow>
         page_created pri_low r s sp n title = (Some e, s))
   \<and> (\<forall>p q scr t. GetPriority r n = Inr p \<longrightarrow> pri_low \<le> p \<longrightarrow>
         GetSequenceNumber r n = Inr q \<longrightarrow> map_of (screens s) sp = Some scr \<longrightarrow>
         map_of (items scr) (str q) = None \<longrightarrow> GetTitle r n = Inr t \<longrightarrow>
         page_created pri_low r s sp n title
           = (None, s\<lparr>screens := screens (snd (page_created pri_low r s sp n title)),
                       trace := trace s @ [Rebuild]\<rparr>)
         \<and> (\<exists>scr'. map_of (screens (snd (page_created pri_low r s sp n title))) sp = Some scr'
                 \<and> scr' = scr\<lparr>items := items scr'\<rparr>
                 \<and> map_of (items scr') = (map_of (items scr))(str q \<mapsto> t))
         \<and> (\<forall>x. x \<noteq> sp \<longrightarrow>
               map_of (screens (snd (page_created pri_low r s sp n title))) x
                 = map_of (screens s) x))"
proof -
  note iff = page_created_changes_iff [of pri_low r s sp n title]
  have tr: "trace (snd (page_created pri_low r s sp n title))
     = (if screens (snd (page_created pri_low r s sp n title)) = screens s
        then trace s else trace s @ [Rebuild])"
    by (simp add: page_created_def add_page_trace split: sum.split)
  have a: "\<forall>e. GetPriority r n = Inl e \<longrightarrow>
         page_created pri_low r s sp n title = (Some e, s)"
    by (simp add: page_created_def)
  have b: "\<forall>p. GetPriority r n = Inr p \<longrightarrow> p < pri_low \<longrightarrow>
         page_created pri_low r s sp n title = (None, s)"
    by (simp add: page_created_def)
  have c: "\<forall>p e. GetPriority r n = Inr p \<longrightarrow> pri_low \<le> p \<longrightarrow>
         GetSequenceNumber r n = Inl e \<longrightarrow>
         page_created pri_low r s sp n title = (Some e, s)"
    by (simp add: page_created_def add_page_def)
  have d: "\<forall>p q. GetPriority r n = Inr p \<longrightarrow> pri_low \<le> p \<longrightarrow>
         GetSequenceNumber r n = Inr q \<longrightarrow> map_of (screens s) sp = None \<longrightarrow>
         page_created pri_low r s sp n title = (Some KeyError, s)"
    by (simp add: page_created_def add_page_def dict_get_def)
  have e: "\<forall>p q scr. GetPriority r n = Inr p \<longrightarrow> pri_low \<le> p \<longrightarrow>
         GetSequenceNumber r n = Inr q \<longrightarrow> map_of (screens s) sp = Some scr \<longrightarrow>
         map_of (items scr) (str q) \<noteq> None \<longrightarrow>
         page_created pri_low r s sp n title = (None, s)"
    by (auto simp add: page_created_def add_page_def dict_get_def dict_in_def Let_def)
  have f: "\<forall>p q scr e. GetPriority r n = Inr p \<longrightarrow> pri_low \<le> p \<longrightarrow>
         GetSequenceNumber r n = Inr q \<longrightarrow> map_of (screens s) sp = Some scr \<longrightarrow>
         map_of (items scr) (str q) = None \<longrightarrow> GetTitle r n = Inl e \<longrightarrow>
         page_created pri_low r s sp n title = (Some e, s)"
    by (simp add: page_created_def add_page_def dict_get_def dict_in_def Let_def)
  have g: "\<forall>p q scr t. GetPriority r n = Inr p \<longrightarrow> pri_low \<le> p \<longrightarrow>
         GetSequenceNumber r n = Inr q \<longrightarrow> map_of (screens s) sp = Some scr \<longrightarrow>
         map_of (items scr) (str q) = None \<longrightarrow> GetTitle r n = Inr t \<longrightarrow>
         page_created pri_low r s sp n title
           = (None, s\<lparr>screens := screens (snd (page_created pri_low r s sp n title)),
                       trace := trace s @ [Rebuild]\<rparr>)
         \<and> (\<exists>scr'. map_of (screens (snd (page_created pri_low r s sp n title))) sp = Some scr'
                 \<and> scr' = scr\<lparr>items := items scr'\<rparr>
                 \<and> map_of (items scr') = (map_of (items scr))(str q \<mapsto> t))
         \<and> (\<forall>x. x \<noteq> sp \<longrightarrow>
               map_of (screens (snd (page_created pri_low r s sp n title))) x
                 = map_of (screens s) x)"
    by (simp add: page_created_def add_page_def dict_get_def dict_in_def Let_def
        rebuild_desktop_component_def map_of_dict_set)
  show ?thesis
    by (intro conjI iff tr a b c d e f g)
qed

theorem page_created_inserts_iff_witness:
  "GetPriority no_priority_remote 7 = Inl DBusException
   \<and> page_created 20 no_priority_remote connected_state ''/s1'' 7 ''News''
       = (Some DBusException, connected_state)
   \<and> GetPriority demo_remote 7 = Inr 20 \<and> (20::int) < 50
   \<and> page_created 50 demo_remote connected_state ''/s1'' 7 ''News'' = (None, connected_state)
   \<and> GetPriority no_seqno_remote 7 = Inr 20 \<and> (20::int) \<le> 20
   \<and> GetSequenceNumber no_seqno_remote 7 = Inl DBusException
   \<and> page_created 20 no_seqno_remote connected_state ''/s1'' 7 ''News''
       = (Some DBusException, connected_state)
   \<and> GetSequenceNumber demo_remote 7 = Inr 7
   \<and> map_of (screens connected_state) ''/s9'' = None
   \<and> page_created 20 demo_remote connected_state ''/s9'' 7 ''News''
       = (Some KeyError, connected_state)
   \<and> GetPriority demo_remote 5 = Inr 20 \<and> GetSequenceNumber demo_remote 5 = Inr 5
   \<and> map_of (screens connected_state) ''/s1'' = Some weather_screen
   \<and> map_of (items weather_screen) (str 5) \<noteq> None
   \<and> page_created 20 demo_remote connected_state ''/s1'' 5 ''News'' = (None, connected_state)
   \<and> GetPriority no_title_remote 7 = Inr 20 \<and> GetSequenceNumber no_title_remote 7 = Inr 7
   \<and> map_of (items weather_screen) (str 7) = None
   \<and> GetTitle no_title_remote 7 = Inl DBusException
   \<and> page_created 20 no_title_remote connected_state ''/s1'' 7 ''News''
       = (Some DBusException, connected_state)
   \<and> GetTitle demo_remote 7 = Inr ''Weather''
   \<and> fst (page_created 20 demo_remote connected_state ''/s1'' 7 ''News'') = None
   \<and> trace (snd (page_created 20 demo_remote connected_state ''/s1'' 7 ''News'')) = [Rebuild]
   \<and> (\<exists>scr'. map_of (screens (snd (page_created 20 demo_remote connected_state ''/s1'' 7 ''News'')))
                ''/s1'' = Some scr'
            \<and> map_of (items scr') ''7'' = Some ''Weather''
            \<and> map_of (items scr') ''5'' = Some ''Weather'')"
proof -
  have pr: "GetPriority demo_remote 7 = Inr 20" "GetPriority demo_remote 5 = Inr 20"
    and sq: "GetSequenceNumber demo_remote 5 = Inr 5" "GetSequenceNumber demo_remote 7 = Inr 7"
    and ti: "GetTitle demo_remote 7 = Inr ''Weather''"
    by (simp_all add: demo_remote_def)
  have np: "GetPriority no_priority_remote 7 = Inl DBusException"
    by (simp add: no_priority_remote_def)
  have ns: "GetPriority no_seqno_remote 7 = Inr 20"
    "GetSequenceNumber no_seqno_remote 7 = Inl DBusException"
    by (simp_all add: no_seqno_remote_def demo_remote_def)
  have nt: "GetPriority no_title_remote 7 = Inr 20"
    "GetSequenceNumber no_title_remote 7 = Inr 7"
    "GetTitle no_title_remote 7 = Inl DBusException"
    by (simp_all add: no_title_remote_def demo_remote_def)
  have sc: "map_of (screens connected_state) ''/s1'' = Some weather_screen"
    and un: "map_of (screens connected_state) ''/s9'' = None"
    and tr: "trace connected_state = []"
    by (simp_all add: connected_state_def)
  have k5: "str 5 = ''5''" and k7: "str 7 = ''7''"
    by (simp_all add: str_def str_nat.simps)
  have i5: "map_of (items weather_screen) (str 5) \<noteq> None"
    and i7: "map_of (items weather_screen) (str 7) = None"
    and w5: "map_of (items weather_screen) ''5'' = Some ''Weather''"
    by (simp_all add: k5 k7 weather_screen_def)
  have lo: "(20::int) < 50" and le: "(20::int) \<le> 20"
    by simp_all
  have z: "page_created 20 no_priority_remote connected_state ''/s1'' 7 ''News''
       = (Some DBusException, connected_state)"
    by (rule page_created_inserts_iff [of 20 no_priority_remote connected_state "''/s1''" 7 "''News''", THEN conjunct2, THEN conjunct2, THEN conjunct1, rule_format]) (rule np)
  have a: "page_created 50 demo_remote connected_state ''/s1'' 7 ''News'' = (None, connected_state)"
    by (rule page_created_inserts_iff [of 50 demo_remote connected_state "''/s1''" 7 "''News''", THEN conjunct2, THEN conjunct2, THEN conjunct2, THEN conjunct1, rule_format]) (rule pr(1), rule lo)
  have y: "page_created 20 no_seqno_remote connected_state ''/s1'' 7 ''News''
       = (Some DBusException, connected_state)"
    by (rule page_created_inserts_iff [of 20 no_seqno_remote connected_state "''/s1''" 7 "''News''", THEN conjunct2, THEN conjunct2, THEN conjunct2, THEN conjunct2, THEN conjunct1, rule_format]) (rule ns(1), rule le, rule ns(2))
  have x: "page_created 20 demo_remote connected_state ''/s9'' 7 ''News''
       = (Some KeyError, connected_state)"
    by (rule page_created_inserts_iff [of 20 demo_remote connected_state "''/s9''" 7 "''News''", THEN conjunct2, THEN conjunct2, THEN conjunct2, THEN conjunct2, THEN conjunct2, THEN conjunct1, rule_format]) (rule pr(1), rule le, rule sq(2), rule un)
  have b: "page_created 20 demo_remote connected_state ''/s1'' 5 ''News'' = (None, connected_state)"
    by (rule page_created_inserts_iff [of 20 demo_remote connected_state "''/s1''" 5 "''News''", THEN conjunct2, THEN conjunct2, THEN conjunct2, THEN conjunct2, THEN conjunct2, THEN conjunct2, THEN conjunct1, rule_format]) (rule pr(2), rule le, rule sq(1), rule sc, rule i5)
  have w: "page_created 20 no_title_remote connected_state ''/s1'' 7 ''News''
       = (Some DBusException, connected_state)"
    by (rule page_created_inserts_iff [of 20 no_title_remote connected_state "''/s1''" 7 "''News''", THEN conjunct2, THEN conjunct2, THEN conjunct2, THEN conjunct2, THEN conjunct2, THEN conjunct2, THEN conjunct2, THEN conjunct1, rule_format]) (rule nt(1), rule le, rule nt(2), rule sc, rule i7, rule nt(3))
  note ins = page_created_inserts_iff [of 20 demo_remote connected_state "''/s1''" 7 "''News''", THEN conjunct2, THEN conjunct2, THEN conjunct2, THEN conjunct2, THEN conjunct2, THEN conjunct2, THEN conjunct2, THEN conjunct2, THEN spec, THEN spec, THEN spec, THEN spec, THEN mp, THEN mp, THEN mp, THEN mp, THEN mp, THEN mp]
  have c: "page_created 20 demo_remote connected_state ''/s1'' 7 ''News''
           = (None, connected_state\<lparr>screens := screens (snd (page_created 20 demo_remote connected_state ''/s1'' 7 ''News'')),
                       trace := trace connected_state @ [Rebuild]\<rparr>)
         \<and> (\<exists>scr'. map_of (screens (snd (page_created 20 demo_remote connected_state ''/s1'' 7 ''News''))) ''/s1'' = Some scr'
                 \<and> scr' = weather_screen\<lparr>items := items scr'\<rparr>
                 \<and> map_of (items scr') = (map_of (items weather_screen))(str 7 \<mapsto> ''Weather''))
         \<and> (\<forall>x. x \<noteq> ''/s1'' \<longrightarrow>
               map_of (screens (snd (page_created 20 demo_remote connected_state ''/s1'' 7 ''News''))) x
                 = map_of (screens connected_state) x)"
    by (rule ins) (rule pr(1), rule le, rule sq(2), rule sc, rule i7, rule ti)
  note c1 = c [THEN conjunct1]
  note c2 = c [THEN conjunct2, THEN conjunct1]
  have f: "fst (page_created 20 demo_remote connected_state ''/s1'' 7 ''News'') = None"
    by (subst c1) simp
  have g: "trace (snd (page_created 20 demo_remote connected_state ''/s1'' 7 ''News'')) = [Rebuild]"
    by (subst c1) (simp add: tr)
  from c2 obtain scr' where
    "map_of (screens (snd (page_created 20 demo_remote connected_state ''/s1'' 7 ''News''))) ''/s1'' = Some scr'"
    and "map_of (items scr') = (map_of (items weather_screen))(str 7 \<mapsto> ''Weather'')"
    by blast
  then have h: "\<exists>scr'. map_of (screens (snd (page_created 20 demo_remote connected_state ''/s1'' 7 ''News'')))
                ''/s1'' = Some scr'
            \<and> map_of (items scr') ''7'' = Some ''Weather''
            \<and> map_of (items scr') ''5'' = Some ''Weather''"
    by (simp add: k7 w5)
  show ?thesis
    by (intro conjI np z pr lo a ns le y sq un x sc i5 b nt i7 w ti f g h)
qed

text \<open>
  C6. The page-title-changed handler, for a screen in the cache, stores the new title
  under the page's sequence number, whether or not the key was there, changes nothing
  else in the cache and invokes rebuild once. For a screen path that is not in the cache
  it raises KeyError and leaves the component as it was.
\<close>

theorem page_title_changed_overwrites:
  "(\<forall>scr. map_of (screens s) sp = Some scr \<longrightarrow>
      page_title_changed s sp n t
        = (None, s\<lparr>screens := screens (snd (page_title_changed s sp n t)),
                    trace := trace s @ [Rebuild]\<rparr>)
      \<and> (\<exists>scr'. map_of (screens (snd (page_title_changed s sp n t))) sp = Some scr'
               \<and> scr' = scr\<lparr>items := items scr'\<rparr>
               \<and> map_of (items scr') = (map_of (items scr))(str n \<mapsto> t))
      \<and> (\<forall>q. q \<noteq> sp \<longrightarrow>
            map_of (screens (snd (page_title_changed s sp n t))) q = map_of (screens s) q))
   \<and> (map_of (screens s) sp = None \<longrightarrow> page_title_changed s sp n t = (Some KeyError, s))"
  by (simp add: page_title_changed_def dict_get_def rebuild_desktop_component_def map_of_dict_set)

theorem page_title_changed_overwrites_witness:
  "map_of (screens connected_state) ''/s1'' = Some weather_screen
   \<and> fst (page_title_changed connected_state ''/s1'' 5 ''Rain'') = None
   \<and> trace (snd (page_title_changed connected_state ''/s1'' 5 ''Rain'')) = [Rebuild]
   \<and> (\<exists>scr'. map_of (screens (snd (page_title_changed connected_state ''/s1'' 5 ''Rain''))) ''/s1''
                = Some scr'
            \<and> map_of (items scr') ''5'' = Some ''Rain'')
   \<and> map_of (screens connected_state) ''/s9'' = None
   \<and> page_title_changed connected_state ''/s9'' 5 ''Rain'' = (Some KeyError, connected_state)"
proof -
  have a: "map_of (screens connected_state) ''/s1'' = Some weather_screen"
    and b: "map_of (screens connected_state) ''/s9'' = None"
    and t: "trace connected_state = []"
    by (simp_all add: connected_state_def)
  have k: "str 5 = ''5''"
    by (simp add: str_def str_nat.simps)
  note p = page_title_changed_overwrites [of connected_state "''/s1''" 5 "''Rain''"]
  note q = page_title_changed_overwrites [of connected_state "''/s9''" 5 "''Rain''"]
  from p a have p1: "page_title_changed connected_state ''/s1'' 5 ''Rain''
        = (None, connected_state\<lparr>screens := screens (snd (page_title_changed connected_state ''/s1'' 5 ''Rain'')),
                    trace := trace connected_state @ [Rebuild]\<rparr>)"
    and p2: "\<exists>scr'. map_of (screens (snd (page_title_changed connected_state ''/s1'' 5 ''Rain''))) ''/s1''
                   = Some scr'
               \<and> scr' = weather_screen\<lparr>items := items scr'\<rparr>
               \<and> map_of (items scr') = (map_of (items weather_screen))(str 5 \<mapsto> ''Rain'')"
    by blast+
  have f: "fst (page_title_changed connected_state ''/s1'' 5 ''Rain'') = None"
    by (subst p1) simp
  have g: "trace (snd (page_title_changed connected_state ''/s1'' 5 ''Rain'')) = [Rebuild]"
    by (subst p1) (simp add: t)
  from p2 obtain scr' where
    "map_of (screens (snd (page_title_changed connected_state ''/s1'' 5 ''Rain''))) ''/s1'' = Some scr'"
    and "map_of (items scr') = (map_of (items weather_screen))(str 5 \<mapsto> ''Rain'')"
    by blast
  then have h: "\<exists>scr'. map_of (screens (snd (page_title_changed connected_state ''/s1'' 5 ''Rain''))) ''/s1''
                = Some scr' \<and> map_of (items scr') ''5'' = Some ''Rain''"
    by (simp add: k)
  from q b have e: "page_title_changed connected_state ''/s9'' 5 ''Rain'' = (Some KeyError, connected_state)"
    by blast
  show ?thesis using a b f g h e by blast
qed

text \<open>
  C10. The page-deleting handler raises KeyError for a screen path that is not in the
  cache, leaving the component as it was, so without a rebuild. Only the page key is
  guarded: for a known screen and an unknown page it returns normally and changes
  nothing.
\<close>

theorem page_deleting_unknown_screen:
  "(map_of (screens s) sp = None \<longrightarrow> page_deleting s sp n = (Some KeyError, s))
   \<and> (\<forall>scr. map_of (screens s) sp = Some scr \<longrightarrow> map_of (items scr) (str n) = None \<longrightarrow>
         page_deleting s sp n = (None, s))"
  by (simp add: page_deleting_def dict_get_def dict_in_def)

theorem page_deleting_unknown_screen_witness:
  "map_of (screens connected_state) ''/s9'' = None
   \<and> page_deleting connected_state ''/s9'' 5 = (Some KeyError, connected_state)
   \<and> map_of (screens connected_state) ''/s1'' = Some weather_screen
   \<and> map_of (items weather_screen) (str 6) = None
   \<and> page_deleting connected_state ''/s1'' 6 = (None, connected_state)"
proof -
  have a: "map_of (screens connected_state) ''/s9'' = None"
    and b: "map_of (screens connected_state) ''/s1'' = Some weather_screen"
    by (simp_all add: connected_state_def)
  have c: "map_of (items weather_screen) (str 6) = None"
    by (simp add: weather_screen_def str_def str_nat.simps)
  show ?thesis
    using a b c page_deleting_unknown_screen [of connected_state "''/s9''" 5]
      page_deleting_unknown_screen [of connected_state "''/s1''" 6]
    by blast
qed

subsection \<open>Attention\<close>

text \<open>
  C8. The attention-requested handler stores its message only under a key that is
  absent, and then invokes rebuild once; under a present key it changes nothing. The
  attention-cleared handler removes a present key, and then invokes rebuild once; for an
  absent key it changes nothing.
\<close>

theorem attention_requested_cleared:
  "(map_of (attention_messages s) k = None \<longrightarrow>
      map_of (attention_messages (attention_requested s k m))
        = (map_of (attention_messages s))(k \<mapsto> m)
      \<and> attention_requested s k m
        = s\<lparr>attention_messages := attention_messages (attention_requested s k m),
             trace := trace s @ [Rebuild]\<rparr>)
   \<and> (map_of (attention_messages s) k \<noteq> None \<longrightarrow> attention_requested s k m = s)
   \<and> (map_of (attention_messages s) k \<noteq> None \<longrightarrow>
      map_of (attention_messages (attention_cleared s k))
        = (map_of (attention_messages s))(k := None)
      \<and> attention_cleared s k
        = s\<lparr>attention_messages := attention_messages (attention_cleared s k),
             trace := trace s @ [Rebuild]\<rparr>)
   \<and> (map_of (attention_messages s) k = None \<longrightarrow> attention_cleared s k = s)"
  by (simp add: attention_requested_def attention_cleared_def dict_in_def
      rebuild_desktop_component_def map_of_dict_set delete_conv')

theorem attention_requested_cleared_witness:
  "map_of (attention_messages (attention_requested connected_state ''/s1'' (Some ''Low battery''))) ''/s1''
     = Some (Some ''Low battery'')
   \<and> trace (attention_requested connected_state ''/s1'' (Some ''Low battery'')) = [Rebuild]
   \<and> attention_requested alert_state ''/s1'' (Some ''Overheating'') = alert_state
   \<and> map_of (attention_messages (attention_cleared alert_state ''/s1'')) ''/s1'' = None
   \<and> map_of (attention_messages (attention_cleared alert_state ''/s1'')) ''/s2'' = Some None
   \<and> trace (attention_cleared alert_state ''/s1'') = [Rebuild]
   \<and> attention_cleared connected_state ''/s1'' = connected_state"
proof -
  have a: "map_of (attention_messages connected_state) ''/s1'' = None"
    by (simp add: connected_state_def)
  have b: "map_of (attention_messages alert_state) ''/s1'' \<noteq> None"
    by (simp add: alert_state_def)
  have t: "trace connected_state = []" "trace alert_state = []"
    by (simp_all add: alert_state_def connected_state_def)
  have m: "map_of (attention_messages alert_state) ''/s2'' = Some None"
    by (simp add: alert_state_def)
  note r = attention_requested_cleared [of connected_state "''/s1''" "Some ''Low battery''"]
  note c = attention_requested_cleared [of alert_state "''/s1''" "Some ''Overheating''"]
  from r a have r1: "map_of (attention_messages (attention_requested connected_state ''/s1'' (Some ''Low battery'')))
        = (map_of (attention_messages connected_state))(''/s1'' \<mapsto> Some ''Low battery'')"
    and r2: "attention_requested connected_state ''/s1'' (Some ''Low battery'')
        = connected_state\<lparr>attention_messages := attention_messages (attention_requested connected_state ''/s1'' (Some ''Low battery'')),
             trace := trace connected_state @ [Rebuild]\<rparr>"
    and r3: "attention_cleared connected_state ''/s1'' = connected_state"
    by blast+
  from c b have c1: "attention_requested alert_state ''/s1'' (Some ''Overheating'') = alert_state"
    and c2: "map_of (attention_messages (attention_cleared alert_state ''/s1''))
        = (map_of (attention_messages alert_state))(''/s1'' := None)"
    and c3: "attention_cleared alert_state ''/s1''
        = alert_state\<lparr>attention_messages := attention_messages (attention_cleared alert_state ''/s1''),
             trace := trace alert_state @ [Rebuild]\<rparr>"
    by blast+
  have "trace (attention_requested connected_state ''/s1'' (Some ''Low battery'')) = [Rebuild]"
    by (subst r2) (simp add: t)
  moreover have "trace (attention_cleared alert_state ''/s1'') = [Rebuild]"
    by (subst c3) (simp add: t)
  ultimately show ?thesis
    using r1 r3 c1 c2 m by simp
qed

text \<open>
  C5. \<^verbatim>\<open>check_attention\<close> never raises and calls exactly one hook:
  \<^verbatim>\<open>clear_attention\<close> exactly when the attention map is empty, otherwise
  \<^verbatim>\<open>attention\<close> with the message of the first entry. It changes nothing else,
  so a second call makes the same hook call again.
\<close>

theorem check_attention_levelled:
  "\<exists>e. check_attention s = (None, s\<lparr>trace := trace s @ [e]\<rparr>)
      \<and> (e = ClearAttention) = (attention_messages s = [])
      \<and> (\<forall>k m rest. attention_messages s = (k, m) # rest \<longrightarrow> e = Attention m)
      \<and> check_attention (snd (check_attention s)) = (None, s\<lparr>trace := trace s @ [e, e]\<rparr>)"
proof (cases "attention_messages s")
  case Nil
  then show ?thesis
    by (simp add: check_attention_def clear_attention_def)
next
  case (Cons km rest)
  obtain k m where km: "km = (k, m)" by (cases km)
  have "check_attention s = (None, s\<lparr>trace := trace s @ [Attention m]\<rparr>)"
    using Cons km by (simp add: check_attention_def dict_keys_def dict_get_def attention_def)
  moreover have "check_attention (s\<lparr>trace := trace s @ [Attention m]\<rparr>)
      = (None, s\<lparr>trace := trace s @ [Attention m, Attention m]\<rparr>)"
    using Cons km by (simp add: check_attention_def dict_keys_def dict_get_def attention_def)
  ultimately show ?thesis using Cons km by simp
qed

theorem check_attention_levelled_witness:
  "check_attention alert_state = (None, alert_state\<lparr>trace := [Attention (Some ''Low battery'')]\<rparr>)
   \<and> check_attention (snd (check_attention alert_state))
       = (None, alert_state\<lparr>trace := [Attention (Some ''Low battery''), Attention (Some ''Low battery'')]\<rparr>)"
  using check_attention_levelled [of alert_state]
  by (auto simp add: alert_state_def connected_state_def)

end
